theory Spec2Isabelle
  imports Complex_Main "HOL-Library.Multiset"
begin

section \<open>YOLOv5 post-processing (furiosa/models/vision/yolov5/postprocess.py)\<close>

text \<open>
  Numbers: the source computes in IEEE floating point (float32 arrays); here every
  number is a \<^typ>\<open>real\<close>, so rounding, overflow and NaN are not modelled and
  \<open>astype(np.float32)\<close> is the identity.

  Arrays: a numpy array is its shape together with its elements in row-major order.
  The two-dimensional arrays of the suppression code are lists of rows.
\<close>

datatype error = ValueError | IndexError | AssertionError | ZeroDivisionError

record ndarray =
  shape :: "nat list"
  data :: "real list"

subsection \<open>Boxes: area and intersection over union\<close>

text \<open>\<open>_box_area\<close>: \<open>np.clip(right_bottom - left_top, a_min=0.0)\<close>, then width times height.\<close>

definition box_area :: "real list \<Rightarrow> real list \<Rightarrow> real" where
  "box_area left_top right_bottom =
     (let width_height = map2 (\<lambda>rb lt. max (rb - lt) 0) right_bottom left_top
      in width_height ! 0 * width_height ! 1)"

text \<open>
  \<open>_box_iou\<close> of one row of \<open>boxes1\<close> against the single row of \<open>boxes2\<close>
  (the only call passes \<open>np.expand_dims(current_box, axis=0)\<close>, which numpy
  broadcasts over the rows of \<open>boxes1\<close>).
\<close>

definition box_iou1 :: "real list \<Rightarrow> real list \<Rightarrow> real \<Rightarrow> real" where
  "box_iou1 box1 box2 eps =
     (let overlap_left_top = map2 max (take 2 box1) (take 2 box2);
          overlap_right_bottom = map2 min (drop 2 box1) (drop 2 box2);
          overlap_area = box_area overlap_left_top overlap_right_bottom;
          area1 = box_area (take 2 box1) (drop 2 box1);
          area2 = box_area (take 2 box2) (drop 2 box2)
      in overlap_area / (area1 + area2 - overlap_area + eps))"

definition iou_eps :: real where
  "iou_eps = 1 / 100000"

definition box_iou :: "real list list \<Rightarrow> real list \<Rightarrow> real list" where
  "box_iou boxes1 box2 = map (\<lambda>box1. box_iou1 box1 box2 iou_eps) boxes1"

subsection \<open>Greedy suppression: \<open>_nms\<close>\<close>

text \<open>
  \<open>np.argsort\<close>: the indices that sort the scores in ascending order. Equal scores
  keep their original relative order (a stable sort); the source then reverses the
  whole index array with \<open>[::-1]\<close>.
\<close>

definition argsort :: "real list \<Rightarrow> nat list" where
  "argsort scores = sort_key (\<lambda>i. scores ! i) [0..<length scores]"

text \<open>Boolean-mask indexing \<open>a[mask]\<close> of a one-dimensional array.\<close>

definition select_mask :: "'a list \<Rightarrow> bool list \<Rightarrow> 'a list" where
  "select_mask xs msk = map fst (filter snd (zip xs msk))"

text \<open>
  The \<open>while len(indexes) > 0\<close> loop of \<open>_nms\<close>; \<open>picked\<close> is the list built so far.
  The second equation is the \<open>break\<close> taken when one index remains.
\<close>

function nms_loop :: "real list list \<Rightarrow> real \<Rightarrow> nat list \<Rightarrow> nat list \<Rightarrow> nat list" where
  "nms_loop boxes iou_threshold [] picked = picked"
| "nms_loop boxes iou_threshold [current] picked = picked @ [current]"
| "nms_loop boxes iou_threshold (current # i # rest) picked =
     (let current_box = boxes ! current;
          indexes = i # rest;
          rest_boxes = map (\<lambda>k. boxes ! k) indexes;
          iou = box_iou rest_boxes current_box
      in nms_loop boxes iou_threshold
           (select_mask indexes (map (\<lambda>v. v \<le> iou_threshold) iou))
           (picked @ [current]))"
  by pat_completeness auto
termination
proof (relation "measure (\<lambda>(boxes, thr, indexes, picked). length indexes)")
  show "wf (measure (\<lambda>(boxes, thr, indexes, picked). length indexes))"
    by simp
next
  fix boxes :: "real list list" and iou_threshold :: real
    and current i :: nat and rest picked :: "nat list"
    and x xa :: "real list" and xb :: "nat list" and xc :: "real list list"
    and xd :: "real list"
  assume "xb = i # rest"
  moreover have "length (filter snd (zip xb (map (\<lambda>v. v \<le> iou_threshold) xd)))
      \<le> length (zip xb (map (\<lambda>v. v \<le> iou_threshold) xd))"
    by (rule length_filter_le)
  then have "length (select_mask xb (map (\<lambda>v. v \<le> iou_threshold) xd)) \<le> length xb"
    unfolding select_mask_def by simp
  ultimately show "((boxes, iou_threshold,
        select_mask xb (map (\<lambda>v. v \<le> iou_threshold) xd), picked @ [current]),
       (boxes, iou_threshold, current # i # rest, picked))
      \<in> measure (\<lambda>(boxes, thr, indexes, picked). length indexes)"
    by simp
qed

text \<open>\<open>_nms(box_scores, iou_threshold)\<close>: scores are column 4, boxes columns 0 to 3.\<close>

definition nms :: "real list list \<Rightarrow> real \<Rightarrow> nat list" where
  "nms box_scores iou_threshold =
     (let scores = map (\<lambda>r. r ! 4) box_scores;
          boxes = map (take 4) box_scores;
          indexes = rev (argsort scores)
      in nms_loop boxes iou_threshold indexes [])"

text \<open>The default value of \<open>iou_threshold\<close> in the signature of \<open>_nms\<close>.\<close>

definition nms_default_iou_threshold :: real where
  "nms_default_iou_threshold = 45 / 100"

subsection \<open>Confidence filter and suppression: \<open>non_max_suppression\<close>\<close>

text \<open>
  \<open>xywh2xyxy\<close>: a copy of the array whose columns 0 to 3 are overwritten with the
  corners of the centre-form box.
\<close>

definition xywh2xyxy :: "real list list \<Rightarrow> real list list" where
  "xywh2xyxy x =
     map (\<lambda>r. r[0 := r ! 0 - r ! 2 / 2,
               1 := r ! 1 - r ! 3 / 2,
               2 := r ! 0 + r ! 2 / 2,
               3 := r ! 1 + r ! 3 / 2]) x"

text \<open>
  \<open>np.where\<close> of a two-dimensional boolean array: the (row, column) pairs of the
  true entries, in row-major order.
\<close>

definition where2 :: "bool list list \<Rightarrow> (nat \<times> nat) list" where
  "where2 m =
     concat (map (\<lambda>i. map (\<lambda>j. (i, j)) (filter (\<lambda>j. m ! i ! j) [0..<length (m ! i)]))
                 [0..<length m])"

definition max_nms :: nat where
  "max_nms = 30000"

text \<open>
  Lines 195 to 207: the class scores are multiplied by the objectness, the boxes are
  converted to corners, and one row \<open>(x1, y1, x2, y2, conf, class)\<close> is built for each
  pair found by \<open>np.where(x[:, 5:] > conf_thres)\<close>.
\<close>

definition expand_candidates :: "real list list \<Rightarrow> real \<Rightarrow> real list list" where
  "expand_candidates x0 conf_thres =
     (let x = map (\<lambda>r. take 5 r @ map (\<lambda>v. v * r ! 4) (drop 5 r)) x0;
          box = xywh2xyxy (map (take 4) x);
          ij = where2 (map (\<lambda>r. map (\<lambda>v. v > conf_thres) (drop 5 r)) x)
      in map (\<lambda>(i, j). box ! i @ [x ! i ! (j + 5)] @ [real j]) ij)"

text \<open>
  Lines 216 to 218: \<open>i = _nms(x[:, :5])\<close> and \<open>output[xi] = x[i]\<close>. The call passes no
  threshold, so \<open>_nms\<close> runs with its default.
\<close>

definition suppress :: "real list list \<Rightarrow> real list list" where
  "suppress x =
     (let i = nms (map (take 5) x) nms_default_iou_threshold
      in map (\<lambda>k. x ! k) i)"

text \<open>
  The body of the \<open>for xi, x in enumerate(prediction)\<close> loop for one image; \<open>continue\<close>
  leaves the image's entry at the empty array \<open>np.empty((0, 6))\<close>.
\<close>

definition nms_image :: "real list list \<Rightarrow> real \<Rightarrow> real list list" where
  "nms_image x0 conf_thres =
     (let x = filter (\<lambda>r. r ! 4 > conf_thres) x0
      in if length x = 0 then []
         else
           let x = expand_candidates x conf_thres;
               n = length x
           in if n = 0 then []
              else
                let x = (if n > max_nms
                         then map (\<lambda>k. x ! k)
                                (take max_nms (rev (argsort (map (\<lambda>r. r ! 4) x))))
                         else x)
                in suppress x)"

text \<open>
  The images of a three-dimensional array \<open>(batch, rows, columns)\<close>, each as its list
  of rows.
\<close>

definition rows_of :: "nat \<Rightarrow> nat \<Rightarrow> real list \<Rightarrow> real list list" where
  "rows_of n k xs = map (\<lambda>i. take k (drop (i * k) xs)) [0..<n]"

definition images_of :: "ndarray \<Rightarrow> real list list list" where
  "images_of prediction =
     (let b = shape prediction ! 0; n = shape prediction ! 1; k = shape prediction ! 2
      in map (\<lambda>xi. rows_of n k (take (n * k) (drop (xi * (n * k)) (data prediction))))
             [0..<b])"

text \<open>
  \<open>non_max_suppression(prediction, conf_thres, iou_thres)\<close> for a three-dimensional
  \<open>prediction\<close>. \<open>prediction[..., 4]\<close> is evaluated before the assertions and raises
  IndexError when the last axis has fewer than five entries. \<open>iou_thres\<close> is only
  asserted on.
\<close>

definition non_max_suppression ::
  "ndarray \<Rightarrow> real \<Rightarrow> real \<Rightarrow> error + real list list list" where
  "non_max_suppression prediction conf_thres iou_thres =
     (if shape prediction ! 2 \<le> 4 then Inl IndexError
      else if \<not> (0 \<le> conf_thres \<and> conf_thres \<le> 1) then Inl AssertionError
      else if \<not> (0 \<le> iou_thres \<and> iou_thres \<le> 1) then Inl AssertionError
      else Inr (map (\<lambda>x. nms_image x conf_thres) (images_of prediction)))"

text \<open>
  Replacing the class column (column 5) of every candidate row: used to state that
  suppression does not look at the class.
\<close>

definition relabel :: "(real \<Rightarrow> real) \<Rightarrow> real list list \<Rightarrow> real list list" where
  "relabel f x = map (\<lambda>r. r[5 := f (r ! 5)]) x"

section \<open>Properties\<close>

subsection \<open>Indices handled by the suppression loop\<close>

lemma set_select_mask: "set (select_mask xs msk) \<subseteq> set xs"
  unfolding select_mask_def by (auto dest: set_zip_leftD)

lemma set_nms_loop:
  "set (nms_loop boxes thr indexes picked) \<subseteq> set indexes \<union> set picked"
proof (induction boxes thr indexes picked rule: nms_loop.induct)
  case (1 boxes thr picked)
  show ?case by simp
next
  case (2 boxes thr current picked)
  show ?case by simp
next
  case (3 boxes thr current i rest picked)
  let ?sel = "select_mask (i # rest)
     (map (\<lambda>v. v \<le> thr) (box_iou (map (\<lambda>k. boxes ! k) (i # rest)) (boxes ! current)))"
  have "set (nms_loop boxes thr ?sel (picked @ [current])) \<subseteq> set ?sel \<union> set (picked @ [current])"
    using 3 by simp
  moreover have "set ?sel \<subseteq> set (i # rest)"
    by (rule set_select_mask)
  ultimately show ?case
    by (simp add: Let_def) blast
qed

lemma set_argsort: "set (argsort scores) = {..<length scores}"
  unfolding argsort_def by auto

lemma set_nms: "set (nms box_scores thr) \<subseteq> {..<length box_scores}"
proof -
  have "set (nms box_scores thr) \<subseteq> set (rev (argsort (map (\<lambda>r. r ! 4) box_scores))) \<union> set []"
    unfolding nms_def Let_def by (rule set_nms_loop)
  then show ?thesis
    by (simp add: set_argsort)
qed

subsection \<open>Suppression: the cutoff and the class column\<close>

lemma eval_images_C1:
  "images_of \<lparr>shape = [1, 2, 6], data = [5, 5, 10, 10, 1, 1, 5, 5 / 2, 10, 5, 9 / 10, 1]\<rparr>
     = [[[5, 5, 10, 10, 1, 1], [5, 5 / 2, 10, 5, 9 / 10, 1]]]"
  by (simp add: images_of_def rows_of_def upt_conv_Cons)

lemma eval_expand_C1:
  "expand_candidates [[5, 5, 10, 10, 1, 1], [5, 5 / 2, 10, 5, 9 / 10, 1]] (1 / 4)
     = [[0, 0, 10, 10, 1, 0], [0, 0, 10, 5, 9 / 10, 0]]"
  by (simp add: expand_candidates_def xywh2xyxy_def where2_def upt_conv_Cons)

lemma eval_iou_C1: "box_iou [[0, 0, 10, 5]] [0, 0, 10, 10] = [5000000 / 10000001]"
  by (simp add: box_iou_def box_iou1_def box_area_def iou_eps_def)

lemma eval_suppress_C1:
  "suppress [[0, 0, 10, 10, 1, 0], [0, 0, 10, 5, 9 / 10, 0]] = [[0, 0, 10, 10, 1, 0]]"
  by (simp add: suppress_def nms_def argsort_def upt_conv_Cons eval_iou_C1 select_mask_def
      nms_default_iou_threshold_def)

lemma eval_nms_image_C1:
  "nms_image [[5, 5, 10, 10, 1, 1], [5, 5 / 2, 10, 5, 9 / 10, 1]] (1 / 4)
     = [[0, 0, 10, 10, 1, 0]]"
  by (simp add: nms_image_def eval_expand_C1 eval_suppress_C1 max_nms_def)

text \<open>
  Claim C1. The claim: the overlap cutoff used by the suppression step is the
  \<open>iou_thres\<close> argument of the call. On the code this fails: \<open>non_max_suppression\<close>
  calls \<open>_nms(x[:, :5])\<close> without a threshold, so the cutoff is always 0.45. For two
  candidates whose intersection over union is 5000000/10000001 (below the requested
  cutoff 0.9, above 0.45) the call with \<open>iou_thres = 0.9\<close> still discards the second.
\<close>

theorem C1_iou_thres_not_used:
  "non_max_suppression
     \<lparr>shape = [1, 2, 6], data = [5, 5, 10, 10, 1, 1, 5, 5 / 2, 10, 5, 9 / 10, 1]\<rparr>
     (1 / 4) (9 / 10) = Inr [[[0, 0, 10, 10, 1, 0]]]
   \<and> box_iou [[0, 0, 10, 5]] [0, 0, 10, 10] = [5000000 / 10000001]
   \<and> (5000000 / 10000001 :: real) \<le> 9 / 10"
  unfolding non_max_suppression_def eval_images_C1
  by (simp add: eval_nms_image_C1 eval_iou_C1)

lemma take5_relabel: "map (take 5) (relabel f x) = map (take 5) x"
  unfolding relabel_def by simp

lemma eval_iou_same: "box_iou [[0, 0, 10, 10]] [0, 0, 10, 10] = [10000000 / 10000001]"
  by (simp add: box_iou_def box_iou1_def box_area_def iou_eps_def)

lemma eval_suppress_two_classes:
  "suppress [[0, 0, 10, 10, 9 / 10, 0], [0, 0, 10, 10, 8 / 10, 1]] = [[0, 0, 10, 10, 9 / 10, 0]]"
  by (simp add: suppress_def nms_def argsort_def upt_conv_Cons eval_iou_same select_mask_def
      nms_default_iou_threshold_def)

text \<open>
  Claim C7. The candidates kept by suppression are determined by the first five columns
  (corners and score) alone: two candidate arrays that agree on these columns keep the
  same indices, relabelling the class column commutes with suppression, and a box of
  class 0 with score 0.9 suppresses an identical box of class 1 with score 0.8.
\<close>

theorem C7_suppression_ignores_class:
  "(map (take 5) x = map (take 5) y \<longrightarrow>
      (\<exists>ks. set ks \<subseteq> {..<length x} \<and> suppress x = map (\<lambda>k. x ! k) ks
            \<and> suppress y = map (\<lambda>k. y ! k) ks))
   \<and> suppress (relabel f x) = relabel f (suppress x)
   \<and> suppress [[0, 0, 10, 10, 9 / 10, 0], [0, 0, 10, 10, 8 / 10, 1]]
       = [[0, 0, 10, 10, 9 / 10, 0]]"
proof (intro conjI impI)
  assume eq: "map (take 5) x = map (take 5) y"
  let ?ks = "nms (map (take 5) x) nms_default_iou_threshold"
  have "set ?ks \<subseteq> {..<length (map (take 5) x)}"
    by (rule set_nms)
  then have "set ?ks \<subseteq> {..<length x}" by simp
  moreover have "suppress x = map (\<lambda>k. x ! k) ?ks"
    by (simp add: suppress_def)
  moreover have "suppress y = map (\<lambda>k. y ! k) ?ks"
    by (simp add: suppress_def eq)
  ultimately show "\<exists>ks. set ks \<subseteq> {..<length x} \<and> suppress x = map (\<lambda>k. x ! k) ks
            \<and> suppress y = map (\<lambda>k. y ! k) ks"
    by blast
next
  let ?ks = "nms (map (take 5) x) nms_default_iou_threshold"
  have "set ?ks \<subseteq> {..<length (map (take 5) x)}"
    by (rule set_nms)
  then have in_range: "\<forall>k\<in>set ?ks. k < length x" by auto
  have "suppress (relabel f x) = map (\<lambda>k. relabel f x ! k) ?ks"
    by (simp add: suppress_def take5_relabel)
  also have "\<dots> = map (\<lambda>k. (x ! k)[5 := f (x ! k ! 5)]) ?ks"
    using in_range by (simp add: relabel_def)
  also have "\<dots> = relabel f (suppress x)"
    by (simp add: relabel_def suppress_def comp_def)
  finally show "suppress (relabel f x) = relabel f (suppress x)" .
next
  show "suppress [[0, 0, 10, 10, 9 / 10, 0], [0, 0, 10, 10, 8 / 10, 1]]
       = [[0, 0, 10, 10, 9 / 10, 0]]"
    by (rule eval_suppress_two_classes)
qed

theorem C7_suppression_ignores_class_witness:
  "map (take 5) [[0, 0, 10, 10, 9 / 10, 0], [0, 0, 10, 10, 8 / 10, 1 :: real]]
     = map (take 5) [[0, 0, 10, 10, 9 / 10, 7], [0, 0, 10, 10, 8 / 10, 7]]
   \<and> (\<exists>ks. suppress [[0, 0, 10, 10, 9 / 10, 0], [0, 0, 10, 10, 8 / 10, 1]]
              = map (\<lambda>k. [[0, 0, 10, 10, 9 / 10, 0], [0, 0, 10, 10, 8 / 10, 1]] ! k) ks
          \<and> suppress [[0, 0, 10, 10, 9 / 10, 7], [0, 0, 10, 10, 8 / 10, 7]]
              = map (\<lambda>k. [[0, 0, 10, 10, 9 / 10, 7], [0, 0, 10, 10, 8 / 10, 7]] ! k) ks)"
proof -
  have h: "map (take 5) [[0, 0, 10, 10, 9 / 10, 0], [0, 0, 10, 10, 8 / 10, 1 :: real]]
     = map (take 5) [[0, 0, 10, 10, 9 / 10, 7], [0, 0, 10, 10, 8 / 10, 7]]"
    by simp
  from C7_suppression_ignores_class
    [of "[[0, 0, 10, 10, 9 / 10, 0], [0, 0, 10, 10, 8 / 10, 1]]"
        "[[0, 0, 10, 10, 9 / 10, 7], [0, 0, 10, 10, 8 / 10, 7]]"] h
  show ?thesis by blast
qed

end
